theory Spec2Isabelle
  imports Main "HOL-Library.Multiset"
begin

section \<open>Blogicum: the data model\<close>

text \<open>
  Modelled from the spec: \<^verbatim>\<open>blog/models.py\<close> (the classes Post, Category, Location,
  Comment and User) is not among the sources. The fields below are those of section 3 of
  the specification; \<open>is_published\<close> and \<open>created_at\<close> come from
  \<^verbatim>\<open>core/models.py\<close> (BlogAbstracModel), the others agree with the columns that
  \<^verbatim>\<open>blog/admin.py\<close> displays. Primary keys are natural numbers, timestamps are
  integers, a foreign key is the primary key of the row it refers to, and a nullable
  foreign key is an option.
\<close>

record user =
  user_pk :: nat
  username :: string
  first_name :: string
  last_name :: string
  email :: string

record category =
  category_pk :: nat
  category_title :: string
  description :: string
  slug :: string
  category_is_published :: bool
  category_created_at :: int

record location =
  location_pk :: nat
  location_name :: string
  location_is_published :: bool
  location_created_at :: int

record post =
  post_pk :: nat
  title :: string
  post_text :: string
  pub_date :: int
  author_id :: nat
  category_id :: "nat option"
  location_id :: "nat option"
  is_published :: bool
  created_at :: int

record comment =
  comment_pk :: nat
  comment_text :: string
  comment_author_id :: nat
  comment_post_id :: nat
  comment_created_at :: int

text \<open>The database: one list of rows per table, in storage order.\<close>

record database =
  users :: "user list"
  categories :: "category list"
  locations :: "location list"
  posts :: "post list"
  comments :: "comment list"

text \<open>
  The constraints the database enforces: primary keys, the unique columns
  (\<open>username\<close>, \<open>slug\<close>) and the foreign keys that must refer to a row.
\<close>

definition wf_db :: "database \<Rightarrow> bool" where
  "wf_db db \<longleftrightarrow>
     distinct (map user_pk (users db)) \<and>
     distinct (map username (users db)) \<and>
     distinct (map category_pk (categories db)) \<and>
     distinct (map slug (categories db)) \<and>
     distinct (map post_pk (posts db)) \<and>
     distinct (map comment_pk (comments db)) \<and>
     list_all (\<lambda>p. author_id p \<in> set (map user_pk (users db))) (posts db) \<and>
     list_all (\<lambda>c. comment_author_id c \<in> set (map user_pk (users db)) \<and>
                    comment_post_id c \<in> set (map post_pk (posts db))) (comments db)"

section \<open>Requests, responses and errors\<close>

text \<open>
  \<open>request.user\<close> is either Django's \<open>AnonymousUser\<close> or the row of the logged-in
  user. Where the code uses it as a string (a lookup against a character column), Django
  applies \<open>str\<close>: the username of a user, and the literal \<open>AnonymousUser\<close> for the
  anonymous one. Comparing it with a model instance compares primary keys, and the
  anonymous user is equal to no row.
\<close>

datatype viewer = AnonymousUser | Authenticated user

fun str_viewer :: "viewer \<Rightarrow> string" where
  "str_viewer AnonymousUser = ''AnonymousUser''"
| "str_viewer (Authenticated u) = username u"

fun is_authenticated :: "viewer \<Rightarrow> bool" where
  "is_authenticated AnonymousUser = False"
| "is_authenticated (Authenticated u) = True"

fun ne_user :: "nat \<Rightarrow> viewer \<Rightarrow> bool" where
  "ne_user uid AnonymousUser = True"
| "ne_user uid (Authenticated u) = (uid \<noteq> user_pk u)"

datatype http_method = GET | POST

type_synonym querydict = "string \<rightharpoonup> string"

record request =
  req_user :: viewer
  req_method :: http_method
  req_POST :: querydict

datatype error = Http404 | MultipleObjectsReturned | ValueError

text \<open>
  What a view answers: a rendered template, or a redirect to the login page, to
  \<open>blog:post_detail\<close> with a \<open>pk\<close>, to \<open>blog:profile\<close> with a username, to
  \<open>blog:post_list\<close>, or to \<open>get_absolute_url()\<close> of a saved post (defined in the
  absent \<^verbatim>\<open>blog/models.py\<close>, so kept symbolic).
\<close>

datatype response =
    Render
  | RedirectLogin
  | RedirectPostDetail nat
  | RedirectProfile string
  | RedirectPostList
  | RedirectPostAbsoluteUrl nat

type_synonym result = "error + database \<times> response"

section \<open>The ORM calls the views make\<close>

text \<open>
  \<open>get_object_or_404\<close> on the rows a filter leaves: no row is \<open>Http404\<close>, one row is
  the object, several rows are \<open>MultipleObjectsReturned\<close>.
\<close>

definition get_object_or_404 :: "'a list \<Rightarrow> error + 'a" where
  "get_object_or_404 rows =
     (case rows of [] \<Rightarrow> Inl Http404 | [x] \<Rightarrow> Inr x | _ \<Rightarrow> Inl MultipleObjectsReturned)"

text \<open>Following a foreign key: \<open>post.author\<close> and \<open>post.category\<close>.\<close>

definition post_author :: "database \<Rightarrow> post \<Rightarrow> user option" where
  "post_author db p = find (\<lambda>u. user_pk u = author_id p) (users db)"

definition post_category :: "database \<Rightarrow> post \<Rightarrow> category option" where
  "post_category db p =
     (case category_id p of
        None \<Rightarrow> None
      | Some cid \<Rightarrow> find (\<lambda>c. category_pk c = cid) (categories db))"

text \<open>
  The lookup \<open>category__is_published=True\<close>: the join keeps a post only when it has a
  category row and that row is published.
\<close>

definition category_published :: "database \<Rightarrow> post \<Rightarrow> bool" where
  "category_published db p =
     (case post_category db p of None \<Rightarrow> False | Some c \<Rightarrow> category_is_published c)"

text \<open>
  The lookup \<open>author__username=v\<close>: the join with the users table, the username
  compared with the string \<open>v\<close>.
\<close>

definition author_username_is :: "database \<Rightarrow> string \<Rightarrow> post \<Rightarrow> bool" where
  "author_username_is db v p =
     (case post_author db p of None \<Rightarrow> False | Some u \<Rightarrow> username u = v)"

text \<open>\<open>annotate(comment_count=Count("comments"))\<close>: each post with the number of its comments.\<close>

definition comment_count :: "database \<Rightarrow> post \<Rightarrow> nat" where
  "comment_count db p = length (filter (\<lambda>c. comment_post_id c = post_pk p) (comments db))"

definition annotate_comment_count :: "database \<Rightarrow> post list \<Rightarrow> (post \<times> nat) list" where
  "annotate_comment_count db ps = map (\<lambda>p. (p, comment_count db p)) ps"

text \<open>
  \<open>order_by("-pub_date")\<close>: a sort on the negated key, latest first. The order of rows
  with the same \<open>pub_date\<close> is the database's choice; the model keeps their storage order.
\<close>

definition order_by_pub_date_desc :: "(post \<times> nat) list \<Rightarrow> (post \<times> nat) list" where
  "order_by_pub_date_desc rows = sort_key (\<lambda>r. - pub_date (fst r)) rows"

section \<open>The listings\<close>

text \<open>
  The three list views have no login requirement and none of them reads the request: the
  parameter \<open>request\<close> stands for \<open>self.request\<close>, which the methods could use and do
  not. \<open>ListView\<close> then cuts the result into pages of \<open>paginate_by = 10\<close> rows.
\<close>

text \<open>\<open>PostListView.get_queryset\<close>, with \<open>timezone.now()\<close> as the parameter \<open>now\<close>.\<close>

definition PostListView_get_queryset ::
  "int \<Rightarrow> request \<Rightarrow> database \<Rightarrow> (post \<times> nat) list" where
  "PostListView_get_queryset now request db =
     order_by_pub_date_desc
       (annotate_comment_count db
          (filter (\<lambda>p. pub_date p < now \<and> is_published p \<and> category_published db p)
             (posts db)))"

text \<open>\<open>CategoryListView.get_queryset\<close>, for the path parameter \<open>category_slug\<close>.\<close>

definition CategoryListView_get_queryset ::
  "int \<Rightarrow> request \<Rightarrow> database \<Rightarrow> string \<Rightarrow> error + (post \<times> nat) list" where
  "CategoryListView_get_queryset now request db category_slug =
     (case get_object_or_404
             (filter (\<lambda>c. slug c = category_slug \<and> category_is_published c) (categories db)) of
        Inl e \<Rightarrow> Inl e
      | Inr cat \<Rightarrow>
          Inr (order_by_pub_date_desc
                 (annotate_comment_count db
                    (filter (\<lambda>p. category_id p = Some (category_pk cat) \<and>
                                 pub_date p < now \<and>
                                 category_published db p \<and>
                                 is_published p)
                       (posts db)))))"

text \<open>\<open>ProfileView.get_queryset\<close>, for the path parameter \<open>username\<close>.\<close>

definition ProfileView_get_queryset ::
  "request \<Rightarrow> database \<Rightarrow> string \<Rightarrow> error + (post \<times> nat) list" where
  "ProfileView_get_queryset request db uname =
     (case get_object_or_404 (filter (\<lambda>u. username u = uname) (users db)) of
        Inl e \<Rightarrow> Inl e
      | Inr author \<Rightarrow>
          Inr (order_by_pub_date_desc
                 (annotate_comment_count db
                    (filter (\<lambda>p. author_id p = user_pk author) (posts db)))))"

text \<open>A listing is in descending order of \<open>pub_date\<close>.\<close>

definition pub_date_descending :: "(post \<times> nat) list \<Rightarrow> bool" where
  "pub_date_descending rows =
     sorted_wrt (\<lambda>a b. pub_date (fst b) \<le> pub_date (fst a)) rows"

section \<open>The mixins\<close>

text \<open>
  \<open>LoginRequiredMixin.dispatch\<close> (Django): an anonymous request is answered with a
  redirect to the login page, anything else goes on to the next \<open>dispatch\<close> of the
  method resolution order, here the argument \<open>super_dispatch\<close>.
\<close>

definition LoginRequiredMixin_dispatch :: "request \<Rightarrow> database \<Rightarrow> result \<Rightarrow> result" where
  "LoginRequiredMixin_dispatch request db super_dispatch =
     (if \<not> is_authenticated (req_user request) then Inr (db, RedirectLogin)
      else super_dispatch)"

text \<open>
  \<open>DispatchMixin.dispatch\<close>. The view's own \<open>get_object\<close> is the first argument, and
  \<open>author\<close> and \<open>pk\<close> read \<open>.author\<close> and \<open>.pk\<close> of whatever object that returns: a post
  in the post views, a comment in the comment views.
\<close>

definition DispatchMixin_dispatch ::
  "(error + 'a) \<Rightarrow> ('a \<Rightarrow> nat) \<Rightarrow> ('a \<Rightarrow> nat) \<Rightarrow> request \<Rightarrow> database \<Rightarrow> result \<Rightarrow> result" where
  "DispatchMixin_dispatch get_object author pk request db super_dispatch =
     (case get_object of
        Inl e \<Rightarrow> Inl e
      | Inr obj \<Rightarrow>
          if ne_user (author obj) (req_user request)
          then Inr (db, RedirectPostDetail (pk obj))
          else super_dispatch)"

section \<open>The forms\<close>

text \<open>
  A bound form reads from the submitted data only the keys of its own fields.
  \<open>PostForm\<close> has every editable field of Post except \<open>author\<close>
  (\<open>exclude = ('author',)\<close>; \<open>created_at\<close> is \<open>auto_now_add\<close> and so not editable);
  \<open>CommentForm\<close> has \<open>fields = ('text',)\<close>; the profile form has the four fields that
  \<open>ProfileUpdateView.fields\<close> lists.
\<close>

definition bound_data :: "string list \<Rightarrow> querydict \<Rightarrow> querydict" where
  "bound_data names data = restrict_map data (set names)"

definition PostForm_fields :: "string list" where
  "PostForm_fields =
     [''title'', ''text'', ''pub_date'', ''category'', ''location'', ''is_published'']"

definition CommentForm_fields :: "string list" where
  "CommentForm_fields = [''text'']"

definition ProfileUpdateView_fields :: "string list" where
  "ProfileUpdateView_fields = [''username'', ''first_name'', ''last_name'', ''email'']"

record post_cleaned =
  cleaned_title :: string
  cleaned_text :: string
  cleaned_pub_date :: int
  cleaned_category :: "nat option"
  cleaned_location :: "nat option"
  cleaned_is_published :: bool

record user_cleaned =
  cleaned_username :: string
  cleaned_first_name :: string
  cleaned_last_name :: string
  cleaned_email :: string

text \<open>
  Validation (\<open>form.is_valid()\<close>) depends on the field declarations of the absent
  \<^verbatim>\<open>blog/models.py\<close>, so every view takes it as a parameter \<open>clean\<close>: from the bound
  data (and the database, and for the profile form the instance, for uniqueness checks) to
  the cleaned data, or \<open>None\<close> when the form has errors.
\<close>

type_synonym post_validator = "database \<Rightarrow> querydict \<Rightarrow> post_cleaned option"

type_synonym comment_validator = "database \<Rightarrow> querydict \<Rightarrow> string option"

type_synonym user_validator = "database \<Rightarrow> user \<Rightarrow> querydict \<Rightarrow> user_cleaned option"

text \<open>
  A valid model form copies the cleaned value of each of its fields into its instance and
  touches no other attribute.
\<close>

definition PostForm_construct_instance :: "post_cleaned \<Rightarrow> post \<Rightarrow> post" where
  "PostForm_construct_instance cd instance =
     instance\<lparr>title := cleaned_title cd,
              post_text := cleaned_text cd,
              pub_date := cleaned_pub_date cd,
              category_id := cleaned_category cd,
              location_id := cleaned_location cd,
              is_published := cleaned_is_published cd\<rparr>"

definition CommentForm_construct_instance :: "string \<Rightarrow> comment \<Rightarrow> comment" where
  "CommentForm_construct_instance cd instance = instance\<lparr>comment_text := cd\<rparr>"

definition ProfileForm_construct_instance :: "user_cleaned \<Rightarrow> user \<Rightarrow> user" where
  "ProfileForm_construct_instance cd instance =
     instance\<lparr>username := cleaned_username cd,
              first_name := cleaned_first_name cd,
              last_name := cleaned_last_name cd,
              email := cleaned_email cd\<rparr>"

section \<open>Saving and deleting rows\<close>

text \<open>
  The instance of a create form before it is saved: \<open>Post()\<close> and \<open>Comment()\<close>. The
  primary key, the author and the post of a comment are not set yet (written 0 here); the
  views assign the author and the post, and the insert assigns the key and \<open>created_at\<close>.
\<close>

definition Post_new :: post where
  "Post_new =
     \<lparr>post_pk = 0, title = [], post_text = [], pub_date = 0, author_id = 0,
      category_id = None, location_id = None, is_published = True, created_at = 0\<rparr>"

definition Comment_new :: comment where
  "Comment_new =
     \<lparr>comment_pk = 0, comment_text = [], comment_author_id = 0, comment_post_id = 0,
      comment_created_at = 0\<rparr>"

definition next_pk :: "nat list \<Rightarrow> nat" where
  "next_pk pks = Suc (fold max pks 0)"

definition Post_insert :: "int \<Rightarrow> post \<Rightarrow> database \<Rightarrow> database \<times> post" where
  "Post_insert now instance db =
     (let obj = instance\<lparr>post_pk := next_pk (map post_pk (posts db)), created_at := now\<rparr>
      in (db\<lparr>posts := posts db @ [obj]\<rparr>, obj))"

definition Comment_insert :: "int \<Rightarrow> comment \<Rightarrow> database \<Rightarrow> database \<times> comment" where
  "Comment_insert now instance db =
     (let obj = instance\<lparr>comment_pk := next_pk (map comment_pk (comments db)),
                          comment_created_at := now\<rparr>
      in (db\<lparr>comments := comments db @ [obj]\<rparr>, obj))"

text \<open>Saving an instance that has a primary key rewrites the row with that key.\<close>

definition Post_update :: "post \<Rightarrow> database \<Rightarrow> database" where
  "Post_update obj db =
     db\<lparr>posts := map (\<lambda>r. if post_pk r = post_pk obj then obj else r) (posts db)\<rparr>"

definition Comment_update :: "comment \<Rightarrow> database \<Rightarrow> database" where
  "Comment_update obj db =
     db\<lparr>comments := map (\<lambda>r. if comment_pk r = comment_pk obj then obj else r) (comments db)\<rparr>"

definition User_update :: "user \<Rightarrow> database \<Rightarrow> database" where
  "User_update obj db =
     db\<lparr>users := map (\<lambda>r. if user_pk r = user_pk obj then obj else r) (users db)\<rparr>"

text \<open>
  Modelled from the spec: \<open>on_delete\<close> of \<open>Comment.post\<close> is declared in the absent
  \<^verbatim>\<open>blog/models.py\<close>; section 3 allows referential deletion only, so deleting a post
  removes its comments with it.
\<close>

definition Post_delete :: "post \<Rightarrow> database \<Rightarrow> database" where
  "Post_delete obj db =
     db\<lparr>posts := filter (\<lambda>r. post_pk r \<noteq> post_pk obj) (posts db),
        comments := filter (\<lambda>c. comment_post_id c \<noteq> post_pk obj) (comments db)\<rparr>"

definition Comment_delete :: "comment \<Rightarrow> database \<Rightarrow> database" where
  "Comment_delete obj db =
     db\<lparr>comments := filter (\<lambda>r. comment_pk r \<noteq> comment_pk obj) (comments db)\<rparr>"

section \<open>The single-object views\<close>

text \<open>
  \<open>PostDetailView.get_object\<close>. The second alternative of the filter compares the
  column \<open>author__username\<close> with \<open>self.request.user\<close>, an object: the lookup uses its
  string form.
\<close>

definition PostDetailView_get_object :: "request \<Rightarrow> database \<Rightarrow> nat \<Rightarrow> error + post" where
  "PostDetailView_get_object request db pk =
     get_object_or_404
       (filter (\<lambda>p. post_pk p = pk)
          (filter (\<lambda>p. is_published p \<or>
                        author_username_is db (str_viewer (req_user request)) p)
             (posts db)))"

text \<open>
  \<open>get_object\<close> as \<open>UpdateView\<close> and \<open>DeleteView\<close> inherit it (the post views do not
  override it): the row of the model with the \<open>pk\<close> of the path, or \<open>Http404\<close>.
\<close>

definition Post_get_object :: "database \<Rightarrow> nat \<Rightarrow> error + post" where
  "Post_get_object db pk = get_object_or_404 (filter (\<lambda>p. post_pk p = pk) (posts db))"

text \<open>\<open>CommentMixin.get_object\<close>, for the path parameters \<open>post_pk\<close> and \<open>comment_pk\<close>.\<close>

definition CommentMixin_get_object :: "database \<Rightarrow> nat \<Rightarrow> nat \<Rightarrow> error + comment" where
  "CommentMixin_get_object db post_pk' comment_pk' =
     get_object_or_404
       (filter (\<lambda>c. comment_pk c = comment_pk' \<and> comment_post_id c = post_pk') (comments db))"

text \<open>\<open>ProfileUpdateView.get_object\<close>, for the path parameter \<open>username\<close>.\<close>

definition ProfileUpdateView_get_object :: "database \<Rightarrow> string \<Rightarrow> error + user" where
  "ProfileUpdateView_get_object db uname =
     get_object_or_404 (filter (\<lambda>u. username u = uname) (users db))"

section \<open>Creating, editing and deleting posts\<close>

text \<open>
  \<open>PostCreateView\<close>: \<open>LoginRequiredMixin\<close>, then \<open>CreateView\<close>. A GET renders the empty
  form; a POST validates, and \<open>form_valid\<close> sets the author and saves. Assigning the
  anonymous user to the foreign key would raise \<open>ValueError\<close>.
\<close>

definition PostCreateView_form_valid :: "int \<Rightarrow> request \<Rightarrow> database \<Rightarrow> post \<Rightarrow> result" where
  "PostCreateView_form_valid now request db instance =
     (case req_user request of
        AnonymousUser \<Rightarrow> Inl ValueError
      | Authenticated u \<Rightarrow>
          Inr (fst (Post_insert now (instance\<lparr>author_id := user_pk u\<rparr>) db),
               RedirectProfile (username u)))"

definition PostCreateView :: "post_validator \<Rightarrow> int \<Rightarrow> request \<Rightarrow> database \<Rightarrow> result" where
  "PostCreateView clean now request db =
     LoginRequiredMixin_dispatch request db
       (case req_method request of
          GET \<Rightarrow> Inr (db, Render)
        | POST \<Rightarrow>
            (case clean db (bound_data PostForm_fields (req_POST request)) of
               None \<Rightarrow> Inr (db, Render)
             | Some cd \<Rightarrow>
                 PostCreateView_form_valid now request db
                   (PostForm_construct_instance cd Post_new)))"

text \<open>
  \<open>PostUpdateView\<close>: \<open>LoginRequiredMixin\<close>, then \<open>DispatchMixin\<close>, then \<open>UpdateView\<close>.
  The view has no \<open>success_url\<close>, so a saved form redirects to
  \<open>get_absolute_url()\<close> of the post.
\<close>

definition PostUpdateView_form_valid :: "request \<Rightarrow> database \<Rightarrow> post \<Rightarrow> result" where
  "PostUpdateView_form_valid request db instance =
     (case req_user request of
        AnonymousUser \<Rightarrow> Inl ValueError
      | Authenticated u \<Rightarrow>
          Inr (Post_update (instance\<lparr>author_id := user_pk u\<rparr>) db,
               RedirectPostAbsoluteUrl (post_pk instance)))"

definition PostUpdateView :: "post_validator \<Rightarrow> request \<Rightarrow> database \<Rightarrow> nat \<Rightarrow> result" where
  "PostUpdateView clean request db pk =
     LoginRequiredMixin_dispatch request db
       (DispatchMixin_dispatch (Post_get_object db pk) author_id post_pk request db
          (case Post_get_object db pk of
             Inl e \<Rightarrow> Inl e
           | Inr obj \<Rightarrow>
               (case req_method request of
                  GET \<Rightarrow> Inr (db, Render)
                | POST \<Rightarrow>
                    (case clean db (bound_data PostForm_fields (req_POST request)) of
                       None \<Rightarrow> Inr (db, Render)
                     | Some cd \<Rightarrow>
                         PostUpdateView_form_valid request db
                           (PostForm_construct_instance cd obj)))))"

text \<open>
  \<open>PostDeleteView\<close>: the same two mixins, then \<open>DeleteView\<close>, whose POST deletes the
  object and redirects to \<open>success_url\<close>, the post list; a GET renders the confirmation.
\<close>

definition PostDeleteView :: "request \<Rightarrow> database \<Rightarrow> nat \<Rightarrow> result" where
  "PostDeleteView request db pk =
     LoginRequiredMixin_dispatch request db
       (DispatchMixin_dispatch (Post_get_object db pk) author_id post_pk request db
          (case Post_get_object db pk of
             Inl e \<Rightarrow> Inl e
           | Inr obj \<Rightarrow>
               (case req_method request of
                  GET \<Rightarrow> Inr (db, Render)
                | POST \<Rightarrow> Inr (Post_delete obj db, RedirectPostList))))"

section \<open>Creating, editing and deleting comments\<close>

text \<open>
  \<open>CommentCreateView\<close>: \<open>LoginRequiredMixin\<close>, then \<open>CreateView\<close>; \<open>form_valid\<close> sets
  the author and the post of the path, and the success URL is the detail page of that post.
\<close>

definition CommentCreateView_form_valid ::
  "int \<Rightarrow> request \<Rightarrow> database \<Rightarrow> nat \<Rightarrow> comment \<Rightarrow> result" where
  "CommentCreateView_form_valid now request db pk instance =
     (case req_user request of
        AnonymousUser \<Rightarrow> Inl ValueError
      | Authenticated u \<Rightarrow>
          (case Post_get_object db pk of
             Inl e \<Rightarrow> Inl e
           | Inr p \<Rightarrow>
               Inr (fst (Comment_insert now
                           (instance\<lparr>comment_author_id := user_pk u,
                                     comment_post_id := post_pk p\<rparr>) db),
                    RedirectPostDetail pk)))"

definition CommentCreateView ::
  "comment_validator \<Rightarrow> int \<Rightarrow> request \<Rightarrow> database \<Rightarrow> nat \<Rightarrow> result" where
  "CommentCreateView clean now request db pk =
     LoginRequiredMixin_dispatch request db
       (case req_method request of
          GET \<Rightarrow> Inr (db, Render)
        | POST \<Rightarrow>
            (case clean db (bound_data CommentForm_fields (req_POST request)) of
               None \<Rightarrow> Inr (db, Render)
             | Some cd \<Rightarrow>
                 CommentCreateView_form_valid now request db pk
                   (CommentForm_construct_instance cd Comment_new)))"

text \<open>
  \<open>CommentUpdateView\<close> and \<open>CommentDeleteView\<close>: the bases are \<open>CommentMixin\<close>,
  \<open>DispatchMixin\<close>, \<open>LoginRequiredMixin\<close> and the generic view, in this order, so
  \<open>DispatchMixin.dispatch\<close> runs first, with \<open>CommentMixin.get_object\<close>. The success URL
  is \<open>CommentMixin.get_success_url\<close>: the detail page of the post of the path.
\<close>

definition CommentUpdateView ::
  "comment_validator \<Rightarrow> request \<Rightarrow> database \<Rightarrow> nat \<Rightarrow> nat \<Rightarrow> result" where
  "CommentUpdateView clean request db post_pk' comment_pk' =
     DispatchMixin_dispatch (CommentMixin_get_object db post_pk' comment_pk')
       comment_author_id comment_pk request db
       (LoginRequiredMixin_dispatch request db
          (case CommentMixin_get_object db post_pk' comment_pk' of
             Inl e \<Rightarrow> Inl e
           | Inr obj \<Rightarrow>
               (case req_method request of
                  GET \<Rightarrow> Inr (db, Render)
                | POST \<Rightarrow>
                    (case clean db (bound_data CommentForm_fields (req_POST request)) of
                       None \<Rightarrow> Inr (db, Render)
                     | Some cd \<Rightarrow>
                         Inr (Comment_update (CommentForm_construct_instance cd obj) db,
                              RedirectPostDetail post_pk')))))"

definition CommentDeleteView :: "request \<Rightarrow> database \<Rightarrow> nat \<Rightarrow> nat \<Rightarrow> result" where
  "CommentDeleteView request db post_pk' comment_pk' =
     DispatchMixin_dispatch (CommentMixin_get_object db post_pk' comment_pk')
       comment_author_id comment_pk request db
       (LoginRequiredMixin_dispatch request db
          (case CommentMixin_get_object db post_pk' comment_pk' of
             Inl e \<Rightarrow> Inl e
           | Inr obj \<Rightarrow>
               (case req_method request of
                  GET \<Rightarrow> Inr (db, Render)
                | POST \<Rightarrow> Inr (Comment_delete obj db, RedirectPostDetail post_pk'))))"

section \<open>Editing a profile\<close>

text \<open>
  \<open>ProfileUpdateView\<close>: \<open>LoginRequiredMixin\<close>, then \<open>UpdateView\<close> on the user that
  \<open>get_object\<close> finds by the username of the path. \<open>form_valid\<close> takes the instance the
  form has filled in, sets its username from the cleaned data again, saves it and
  redirects to the profile of the new username. (It also replaces \<open>request.user\<close> by the
  instance, which lasts for the rest of this request only.)
\<close>

definition ProfileUpdateView_form_valid :: "user_cleaned \<Rightarrow> database \<Rightarrow> user \<Rightarrow> result" where
  "ProfileUpdateView_form_valid cd db instance =
     (let user = instance\<lparr>username := cleaned_username cd\<rparr>
      in Inr (User_update user db, RedirectProfile (username user)))"

definition ProfileUpdateView :: "user_validator \<Rightarrow> request \<Rightarrow> database \<Rightarrow> string \<Rightarrow> result" where
  "ProfileUpdateView clean request db uname =
     LoginRequiredMixin_dispatch request db
       (case ProfileUpdateView_get_object db uname of
          Inl e \<Rightarrow> Inl e
        | Inr obj \<Rightarrow>
            (case req_method request of
               GET \<Rightarrow> Inr (db, Render)
             | POST \<Rightarrow>
                 (case clean db obj (bound_data ProfileUpdateView_fields (req_POST request)) of
                    None \<Rightarrow> Inr (db, Render)
                  | Some cd \<Rightarrow>
                      ProfileUpdateView_form_valid cd db
                        (ProfileForm_construct_instance cd obj))))"

section \<open>A small database\<close>

text \<open>
  Three users (one of them registered under the name \<open>AnonymousUser\<close>), a published and
  an unpublished category, six posts and three comments. The clock of the examples stands
  at 100.
\<close>

definition alice :: user where
  "alice = \<lparr>user_pk = 1, username = ''alice'', first_name = ''Alice'', last_name = ''A'',
            email = ''alice@example.org''\<rparr>"

definition bob :: user where
  "bob = \<lparr>user_pk = 2, username = ''bob'', first_name = ''Bob'', last_name = ''B'',
          email = ''bob@example.org''\<rparr>"

definition nobody :: user where
  "nobody = \<lparr>user_pk = 3, username = ''AnonymousUser'', first_name = [], last_name = [],
             email = []\<rparr>"

definition news :: category where
  "news = \<lparr>category_pk = 1, category_title = ''News'', description = ''Fresh'',
           slug = ''news'', category_is_published = True, category_created_at = 1\<rparr>"

definition archive :: category where
  "archive = \<lparr>category_pk = 2, category_title = ''Archive'', description = ''Old'',
              slug = ''archive'', category_is_published = False, category_created_at = 2\<rparr>"

definition P1 :: post where
  "P1 = \<lparr>post_pk = 1, title = ''One'', post_text = ''first'', pub_date = 50, author_id = 1,
         category_id = Some 1, location_id = None, is_published = True, created_at = 5\<rparr>"

definition P2 :: post where
  "P2 = \<lparr>post_pk = 2, title = ''Two'', post_text = ''second'', pub_date = 40, author_id = 1,
         category_id = Some 1, location_id = None, is_published = False, created_at = 6\<rparr>"

definition P3 :: post where
  "P3 = \<lparr>post_pk = 3, title = ''Three'', post_text = ''third'', pub_date = 30, author_id = 2,
         category_id = None, location_id = None, is_published = True, created_at = 7\<rparr>"

definition P4 :: post where
  "P4 = \<lparr>post_pk = 4, title = ''Four'', post_text = ''fourth'', pub_date = 100, author_id = 2,
         category_id = Some 1, location_id = None, is_published = True, created_at = 8\<rparr>"

definition P5 :: post where
  "P5 = \<lparr>post_pk = 5, title = ''Five'', post_text = ''fifth'', pub_date = 10, author_id = 3,
         category_id = Some 2, location_id = None, is_published = False, created_at = 9\<rparr>"

definition P6 :: post where
  "P6 = \<lparr>post_pk = 6, title = ''Six'', post_text = ''sixth'', pub_date = 70, author_id = 2,
         category_id = Some 1, location_id = None, is_published = True, created_at = 10\<rparr>"

definition K1 :: comment where
  "K1 = \<lparr>comment_pk = 1, comment_text = ''nice'', comment_author_id = 2, comment_post_id = 1,
         comment_created_at = 51\<rparr>"

definition K2 :: comment where
  "K2 = \<lparr>comment_pk = 2, comment_text = ''thanks'', comment_author_id = 1,
         comment_post_id = 1, comment_created_at = 52\<rparr>"

definition K3 :: comment where
  "K3 = \<lparr>comment_pk = 3, comment_text = ''hello'', comment_author_id = 1, comment_post_id = 6,
         comment_created_at = 71\<rparr>"

definition blog_db :: database where
  "blog_db = \<lparr>users = [alice, bob, nobody], categories = [news, archive], locations = [],
              posts = [P1, P2, P3, P4, P5, P6], comments = [K1, K2, K3]\<rparr>"

text \<open>The scenario of the specification: the category \<open>news\<close> with the posts P1 and P2 only.\<close>

definition news_db :: database where
  "news_db = \<lparr>users = [alice, bob, nobody], categories = [news, archive], locations = [],
              posts = [P1, P2], comments = [K1, K2]\<rparr>"

definition anonymous_get :: request where
  "anonymous_get = \<lparr>req_user = AnonymousUser, req_method = GET, req_POST = Map.empty\<rparr>"

definition post_by :: "user \<Rightarrow> (string \<times> string) list \<Rightarrow> request" where
  "post_by u kvs = \<lparr>req_user = Authenticated u, req_method = POST, req_POST = map_of kvs\<rparr>"

definition anonymous_post :: "(string \<times> string) list \<Rightarrow> request" where
  "anonymous_post kvs = \<lparr>req_user = AnonymousUser, req_method = POST, req_POST = map_of kvs\<rparr>"

text \<open>
  Validators for the examples: a post form that wants a title and a text, a comment form
  that wants a text, a profile form that wants a username.
\<close>

definition example_PostForm_clean :: post_validator where
  "example_PostForm_clean db data =
     (case data ''title'' of
        None \<Rightarrow> None
      | Some t \<Rightarrow>
          (case data ''text'' of
             None \<Rightarrow> None
           | Some x \<Rightarrow>
               Some \<lparr>cleaned_title = t, cleaned_text = x, cleaned_pub_date = 60,
                     cleaned_category = Some 1, cleaned_location = None,
                     cleaned_is_published = (data ''is_published'' \<noteq> None)\<rparr>))"

definition example_CommentForm_clean :: comment_validator where
  "example_CommentForm_clean db data =
     (case data ''text'' of None \<Rightarrow> None | Some x \<Rightarrow> if x = [] then None else Some x)"

definition example_ProfileForm_clean :: user_validator where
  "example_ProfileForm_clean db instance data =
     (case data ''username'' of
        None \<Rightarrow> None
      | Some n \<Rightarrow>
          if n = [] then None
          else Some \<lparr>cleaned_username = n,
                     cleaned_first_name = (case data ''first_name'' of None \<Rightarrow> [] | Some v \<Rightarrow> v),
                     cleaned_last_name = (case data ''last_name'' of None \<Rightarrow> [] | Some v \<Rightarrow> v),
                     cleaned_email = (case data ''email'' of None \<Rightarrow> [] | Some v \<Rightarrow> v)\<rparr>)"

section \<open>Facts about the queries\<close>

lemma filter_unique_key:
  "distinct (map f xs) \<Longrightarrow> x \<in> set xs \<Longrightarrow>
   filter (\<lambda>y. f y = f x \<and> P y) xs = (if P x then [x] else [])"
proof (induction xs)
  case Nil
  then show ?case by simp
next
  case (Cons a xs)
  show ?case
  proof (cases "a = x")
    case True
    with Cons.prems have "\<And>y. y \<in> set xs \<Longrightarrow> f y \<noteq> f x"
      by (metis distinct.simps(2) image_eqI list.simps(9) list.set_map)
    then have "filter (\<lambda>y. f y = f x \<and> P y) xs = []" by (simp add: filter_empty_conv)
    with True show ?thesis by simp
  next
    case False
    with Cons.prems have "x \<in> set xs" and "f a \<noteq> f x" and "distinct (map f xs)" by auto
    with Cons.IH show ?thesis by simp
  qed
qed

lemma filter_unique_key_only:
  "distinct (map f xs) \<Longrightarrow> x \<in> set xs \<Longrightarrow> filter (\<lambda>y. f y = f x) xs = [x]"
  using filter_unique_key [of f xs x "\<lambda>_. True"] by simp

lemma find_unique_key:
  "distinct (map f xs) \<Longrightarrow> x \<in> set xs \<Longrightarrow> find (\<lambda>y. f y = f x) xs = Some x"
  by (induction xs) auto

lemma order_by_descending: "pub_date_descending (order_by_pub_date_desc rows)"
proof -
  have "sorted (map (\<lambda>r. - pub_date (fst r)) (order_by_pub_date_desc rows))"
    unfolding order_by_pub_date_desc_def by (rule sorted_sort_key)
  then show ?thesis
    by (simp add: pub_date_descending_def sorted_map)
qed

lemma mset_listing:
  "mset (map fst (order_by_pub_date_desc (annotate_comment_count db ps))) = mset ps"
proof -
  have "mset (map fst (order_by_pub_date_desc (annotate_comment_count db ps))) =
        image_mset fst (mset (order_by_pub_date_desc (annotate_comment_count db ps)))"
    by simp
  also have "\<dots> = image_mset fst (mset (annotate_comment_count db ps))"
    by (simp add: order_by_pub_date_desc_def)
  also have "\<dots> = mset (map fst (annotate_comment_count db ps))"
    by simp
  also have "\<dots> = mset ps"
    by (simp add: annotate_comment_count_def comp_def)
  finally show ?thesis .
qed

lemma set_listing:
  "fst ` set (order_by_pub_date_desc (annotate_comment_count db ps)) = set ps"
  by (simp add: order_by_pub_date_desc_def annotate_comment_count_def image_image)

lemmas example_defs =
  alice_def bob_def nobody_def news_def archive_def
  P1_def P2_def P3_def P4_def P5_def P6_def K1_def K2_def K3_def
  blog_db_def news_db_def anonymous_get_def post_by_def

lemmas query_defs =
  get_object_or_404_def post_author_def post_category_def category_published_def
  author_username_is_def comment_count_def annotate_comment_count_def
  order_by_pub_date_desc_def pub_date_descending_def

lemmas view_defs =
  LoginRequiredMixin_dispatch_def DispatchMixin_dispatch_def bound_data_def
  PostForm_fields_def CommentForm_fields_def ProfileUpdateView_fields_def
  PostForm_construct_instance_def CommentForm_construct_instance_def
  ProfileForm_construct_instance_def Post_new_def Comment_new_def next_pk_def
  Post_insert_def Comment_insert_def Post_update_def Comment_update_def User_update_def
  Post_delete_def Comment_delete_def PostDetailView_get_object_def Post_get_object_def
  CommentMixin_get_object_def ProfileUpdateView_get_object_def
  PostCreateView_form_valid_def PostCreateView_def PostUpdateView_form_valid_def
  PostUpdateView_def PostDeleteView_def CommentCreateView_form_valid_def
  CommentCreateView_def CommentUpdateView_def CommentDeleteView_def
  ProfileUpdateView_form_valid_def ProfileUpdateView_def
  example_PostForm_clean_def example_CommentForm_clean_def example_ProfileForm_clean_def

lemma get_object_or_404_Inr: "get_object_or_404 rows = Inr x \<longleftrightarrow> rows = [x]"
  by (auto simp: get_object_or_404_def split: list.splits)

lemma Post_get_object_row:
  "distinct (map post_pk (posts db)) \<Longrightarrow> p \<in> set (posts db) \<Longrightarrow>
   Post_get_object db (post_pk p) = Inr p"
  by (simp add: Post_get_object_def get_object_or_404_def filter_unique_key_only)

lemma bound_data_ignores_author:
  "bound_data PostForm_fields (data(''author'' := a)) = bound_data PostForm_fields data"
  by (rule ext) (simp add: bound_data_def PostForm_fields_def restrict_map_def)

lemma blog_db_wf: "wf_db blog_db"
  by (simp add: wf_db_def example_defs)

section \<open>The home listing\<close>

text \<open>
  Claim C1, as the code has it: a post appears in the home listing exactly when it is a row
  of the posts table, is published, has a \<open>pub_date\<close> strictly before the current time,
  and has a category that is published; the listing is in descending order of \<open>pub_date\<close>.
\<close>

theorem PostListView_listing:
  "(p \<in> fst ` set (PostListView_get_queryset now request db) \<longleftrightarrow>
      p \<in> set (posts db) \<and> is_published p \<and> pub_date p < now \<and>
      (\<exists>c. post_category db p = Some c \<and> category_is_published c)) \<and>
   pub_date_descending (PostListView_get_queryset now request db)"
  by (auto simp: PostListView_get_queryset_def set_listing order_by_descending
      category_published_def split: option.splits)

theorem PostListView_listing_witness:
  "P1 \<in> fst ` set (PostListView_get_queryset 100 anonymous_get blog_db) \<and>
   P3 \<notin> fst ` set (PostListView_get_queryset 100 anonymous_get blog_db) \<and>
   pub_date_descending (PostListView_get_queryset 100 anonymous_get blog_db)"
  using PostListView_listing [of P1 100 anonymous_get blog_db]
    PostListView_listing [of P3 100 anonymous_get blog_db]
  by (simp add: query_defs example_defs)

text \<open>
  The claim as written admits \<open>pub_date = now\<close> and posts without a category. At time
  100 the post P4 (published, in the published category \<open>news\<close>, \<open>pub_date\<close> 100) and the
  post P3 (published, \<open>pub_date\<close> 30, no category) are both missing from the listing.
\<close>

theorem PostListView_listing_counterexample:
  "P4 \<in> set (posts blog_db) \<and> is_published P4 \<and> pub_date P4 \<le> 100 \<and>
   post_category blog_db P4 = Some news \<and> category_is_published news \<and>
   P4 \<notin> fst ` set (PostListView_get_queryset 100 anonymous_get blog_db) \<and>
   P3 \<in> set (posts blog_db) \<and> is_published P3 \<and> pub_date P3 \<le> 100 \<and>
   post_category blog_db P3 = None \<and>
   P3 \<notin> fst ` set (PostListView_get_queryset 100 anonymous_get blog_db)"
  by (simp add: PostListView_get_queryset_def query_defs example_defs)

section \<open>The profile listing\<close>

text \<open>
  Claim C6: for every user \<open>u\<close> of the database and every request (so every viewer,
  logged in or not), the profile listing of \<open>u\<close>'s username succeeds and holds exactly
  the posts whose author is \<open>u\<close>, each once, whatever their publish flags, dates and
  categories, in descending order of \<open>pub_date\<close>.
\<close>

theorem ProfileView_listing:
  assumes "u \<in> set (users db)" and "distinct (map username (users db))"
  shows "\<exists>rows. ProfileView_get_queryset request db (username u) = Inr rows \<and>
           mset (map fst rows) = mset (filter (\<lambda>p. author_id p = user_pk u) (posts db)) \<and>
           pub_date_descending rows"
proof -
  have "filter (\<lambda>v. username v = username u) (users db) = [u]"
    using assms by (simp add: filter_unique_key_only)
  then have "ProfileView_get_queryset request db (username u) =
      Inr (order_by_pub_date_desc
             (annotate_comment_count db (filter (\<lambda>p. author_id p = user_pk u) (posts db))))"
    by (simp add: ProfileView_get_queryset_def get_object_or_404_def)
  then show ?thesis
    using mset_listing order_by_descending by blast
qed

theorem ProfileView_listing_witness:
  "ProfileView_get_queryset anonymous_get blog_db ''alice'' = Inr [(P1, 2), (P2, 0)] \<and>
   mset [P1, P2] = mset (filter (\<lambda>p. author_id p = 1) (posts blog_db)) \<and>
   pub_date_descending [(P1, 2), (P2, 0)]"
proof -
  have u: "alice \<in> set (users blog_db)" and d: "distinct (map username (users blog_db))"
    by (simp_all add: example_defs)
  have v: "ProfileView_get_queryset anonymous_get blog_db ''alice'' = Inr [(P1, 2), (P2, 0)]"
    by (simp add: ProfileView_get_queryset_def query_defs example_defs)
  show ?thesis
    using ProfileView_listing [OF u d, of anonymous_get] v
    by (simp add: alice_def)
qed

section \<open>The category listing\<close>

text \<open>
  Claim C7, as the code has it: for a published category \<open>c\<close> the listing of its slug
  holds exactly the posts of \<open>c\<close> that are published and have a \<open>pub_date\<close> strictly
  before the current time, in descending order of \<open>pub_date\<close>; for an unpublished
  category the request fails with \<open>Http404\<close>.
\<close>

theorem CategoryListView_listing:
  assumes "c \<in> set (categories db)"
    and "distinct (map slug (categories db))"
    and "distinct (map category_pk (categories db))"
  shows "if category_is_published c
         then \<exists>rows. CategoryListView_get_queryset now request db (slug c) = Inr rows \<and>
                mset (map fst rows) =
                  mset (filter (\<lambda>p. category_id p = Some (category_pk c) \<and>
                                     is_published p \<and> pub_date p < now) (posts db)) \<and>
                pub_date_descending rows
         else CategoryListView_get_queryset now request db (slug c) = Inl Http404"
proof -
  have sel: "filter (\<lambda>k. slug k = slug c \<and> category_is_published k) (categories db) =
             (if category_is_published c then [c] else [])"
    by (rule filter_unique_key [OF assms(2) assms(1)])
  have join: "category_published db p = category_is_published c"
    if "category_id p = Some (category_pk c)" for p
    using that find_unique_key [OF assms(3) assms(1)]
    by (simp add: category_published_def post_category_def)
  have same: "filter (\<lambda>p. category_id p = Some (category_pk c) \<and> pub_date p < now \<and>
                          category_published db p \<and> is_published p) (posts db) =
              filter (\<lambda>p. category_id p = Some (category_pk c) \<and>
                          is_published p \<and> pub_date p < now) (posts db)"
    if "category_is_published c"
    using that join by (intro filter_cong) auto
  show ?thesis
  proof (cases "category_is_published c")
    case True
    then have "CategoryListView_get_queryset now request db (slug c) =
      Inr (order_by_pub_date_desc
             (annotate_comment_count db
                (filter (\<lambda>p. category_id p = Some (category_pk c) \<and>
                             is_published p \<and> pub_date p < now) (posts db))))"
      using sel same by (simp add: CategoryListView_get_queryset_def get_object_or_404_def)
    with True show ?thesis
      using mset_listing order_by_descending by auto
  next
    case False
    then show ?thesis
      using sel by (simp add: CategoryListView_get_queryset_def get_object_or_404_def)
  qed
qed

theorem CategoryListView_listing_witness:
  "CategoryListView_get_queryset 100 anonymous_get news_db ''news'' = Inr [(P1, 2)] \<and>
   mset [P1] =
     mset (filter (\<lambda>p. category_id p = Some 1 \<and> is_published p \<and> pub_date p < 100)
             (posts news_db)) \<and>
   pub_date_descending [(P1, 2)] \<and>
   CategoryListView_get_queryset 100 anonymous_get news_db ''archive'' = Inl Http404"
proof -
  have c: "news \<in> set (categories news_db)" "archive \<in> set (categories news_db)"
    and d: "distinct (map slug (categories news_db))"
      "distinct (map category_pk (categories news_db))"
    by (simp_all add: example_defs)
  have v: "CategoryListView_get_queryset 100 anonymous_get news_db ''news'' = Inr [(P1, 2)]"
    by (simp add: CategoryListView_get_queryset_def query_defs example_defs)
  show ?thesis
    using CategoryListView_listing [OF c(1) d, of 100 anonymous_get]
      CategoryListView_listing [OF c(2) d, of 100 anonymous_get] v
    by (simp add: news_def archive_def)
qed

text \<open>
  The claim as written admits \<open>pub_date = now\<close>: at time 100 the post P4 of the
  published category \<open>news\<close> is published and has \<open>pub_date\<close> 100, and the listing leaves
  it out.
\<close>

theorem CategoryListView_listing_counterexample:
  "news \<in> set (categories blog_db) \<and> category_is_published news \<and>
   P4 \<in> set (posts blog_db) \<and> category_id P4 = Some (category_pk news) \<and>
   is_published P4 \<and> pub_date P4 \<le> 100 \<and>
   CategoryListView_get_queryset 100 anonymous_get blog_db (slug news) = Inr [(P6, 1), (P1, 2)] \<and>
   P4 \<notin> fst ` set [(P6, 1), (P1, 2)]"
  by (simp add: CategoryListView_get_queryset_def query_defs example_defs)

section \<open>The detail view of a post\<close>

text \<open>
  What \<open>PostDetailView.get_object\<close> does for a post of a well-formed database, as long as
  the request comes from a user of the database, or from the anonymous user while nobody
  is registered under the name \<open>AnonymousUser\<close>: the post is returned when it is published
  or the viewer is its author, and \<open>Http404\<close> is raised otherwise, as for a key that no
  post has.
\<close>

lemma author_username_is_viewer:
  assumes "wf_db db" and "p \<in> set (posts db)"
    and "case req_user request of
           AnonymousUser \<Rightarrow> ''AnonymousUser'' \<notin> set (map username (users db))
         | Authenticated u \<Rightarrow> u \<in> set (users db)"
  shows "author_username_is db (str_viewer (req_user request)) p \<longleftrightarrow>
         \<not> ne_user (author_id p) (req_user request)"
proof -
  from assms(1,2) obtain a where a: "a \<in> set (users db)" "user_pk a = author_id p"
    by (auto simp: wf_db_def list_all_iff)
  from assms(1) have d: "distinct (map user_pk (users db))" "distinct (map username (users db))"
    by (simp_all add: wf_db_def)
  have f: "post_author db p = Some a"
    using find_unique_key [OF d(1) a(1)] a(2) by (simp add: post_author_def)
  show ?thesis
  proof (cases "req_user request")
    case AnonymousUser
    from a(1) have "username a \<in> set (map username (users db))" by simp
    with AnonymousUser assms(3) have "username a \<noteq> ''AnonymousUser''" by auto
    with AnonymousUser f show ?thesis
      by (simp add: author_username_is_def)
  next
    case (Authenticated u)
    with assms(3) have u: "u \<in> set (users db)" by simp
    have "username a = username u \<longleftrightarrow> a = u"
      using d(2) a(1) u by (auto simp: distinct_map dest: inj_onD)
    moreover have "user_pk a = user_pk u \<longleftrightarrow> a = u"
      using d(1) a(1) u by (auto simp: distinct_map dest: inj_onD)
    ultimately show ?thesis
      using Authenticated f a(2) by (simp add: author_username_is_def)
  qed
qed

lemma PostDetailView_get_object_visible:
  assumes "wf_db db" and "p \<in> set (posts db)"
    and "case req_user request of
           AnonymousUser \<Rightarrow> ''AnonymousUser'' \<notin> set (map username (users db))
         | Authenticated u \<Rightarrow> u \<in> set (users db)"
  shows "PostDetailView_get_object request db (post_pk p) =
           (if is_published p \<or> \<not> ne_user (author_id p) (req_user request)
            then Inr p else Inl Http404)"
proof -
  from assms(1) have d: "distinct (map post_pk (posts db))" by (simp add: wf_db_def)
  have "filter (\<lambda>q. post_pk q = post_pk p)
          (filter (\<lambda>q. is_published q \<or>
                        author_username_is db (str_viewer (req_user request)) q) (posts db)) =
        filter (\<lambda>q. post_pk q = post_pk p \<and>
                    (is_published q \<or>
                     author_username_is db (str_viewer (req_user request)) q)) (posts db)"
    by (simp add: conj_commute)
  also have "\<dots> = (if is_published p \<or>
                        author_username_is db (str_viewer (req_user request)) p
                     then [p] else [])"
    by (rule filter_unique_key [OF d assms(2)])
  finally show ?thesis
    using author_username_is_viewer [OF assms]
    by (simp add: PostDetailView_get_object_def get_object_or_404_def)
qed

lemma PostDetailView_get_object_missing:
  assumes "pk \<notin> set (map post_pk (posts db))"
  shows "PostDetailView_get_object request db pk = Inl Http404"
proof -
  have "filter (\<lambda>p. post_pk p = pk)
          (filter (\<lambda>p. is_published p \<or>
                        author_username_is db (str_viewer (req_user request)) p)
             (posts db)) = []"
    using assms by (auto simp: filter_empty_conv)
  then show ?thesis
    unfolding PostDetailView_get_object_def get_object_or_404_def
    by (simp only: list.case)
qed

text \<open>
  Claim C2 says that the detail view succeeds exactly when the post is published or the
  viewer is logged in and is its author. The code compares the author's username with the
  string form of \<open>request.user\<close>, which for an anonymous viewer is \<open>AnonymousUser\<close>: in
  the well-formed database \<open>blog_db\<close> the unpublished post P5 belongs to the user
  registered under that name, and the anonymous viewer gets it instead of \<open>Http404\<close>.
\<close>

theorem PostDetailView_anonymous_name_clash:
  "wf_db blog_db \<and> P5 \<in> set (posts blog_db) \<and> \<not> is_published P5 \<and>
   \<not> is_authenticated (req_user anonymous_get) \<and>
   PostDetailView_get_object anonymous_get blog_db (post_pk P5) = Inr P5"
  by (simp add: blog_db_wf) (simp add: PostDetailView_get_object_def query_defs example_defs)

section \<open>Editing and deleting a post\<close>

text \<open>
  Claim C3, as the code has it: for every post \<open>p\<close> and every viewer that is not \<open>p\<close>'s
  author, an edit or delete request leaves the database as it is and raises no error; a
  logged-in viewer is redirected to the detail view of \<open>p\<close>, an anonymous viewer to the
  login page.
\<close>

theorem Post_edit_delete_by_other_viewer:
  assumes "p \<in> set (posts db)"
    and "distinct (map post_pk (posts db))"
    and "ne_user (author_id p) (req_user request)"
  shows "PostUpdateView clean request db (post_pk p) =
           Inr (db, if is_authenticated (req_user request)
                    then RedirectPostDetail (post_pk p) else RedirectLogin) \<and>
         PostDeleteView request db (post_pk p) =
           Inr (db, if is_authenticated (req_user request)
                    then RedirectPostDetail (post_pk p) else RedirectLogin)"
  using assms Post_get_object_row [OF assms(2) assms(1)]
  by (simp add: PostUpdateView_def PostDeleteView_def LoginRequiredMixin_dispatch_def
      DispatchMixin_dispatch_def)

theorem Post_edit_delete_by_other_viewer_witness:
  "PostUpdateView example_PostForm_clean (post_by bob [(''title'', ''Mine''), (''text'', ''now'')])
     blog_db 1 = Inr (blog_db, RedirectPostDetail 1) \<and>
   PostDeleteView (post_by bob []) blog_db 1 = Inr (blog_db, RedirectPostDetail 1)"
proof -
  have a: "P1 \<in> set (posts blog_db)" and b: "distinct (map post_pk (posts blog_db))"
    by (simp_all add: example_defs)
  have c: "ne_user (author_id P1)
              (req_user (post_by bob [(''title'', ''Mine''), (''text'', ''now'')]))"
    and d: "ne_user (author_id P1) (req_user (post_by bob []))"
    by (simp_all add: example_defs)
  show ?thesis
    using Post_edit_delete_by_other_viewer [OF a b c, of example_PostForm_clean]
      Post_edit_delete_by_other_viewer [OF a b d, of example_PostForm_clean]
    by (simp add: P1_def post_by_def)
qed

text \<open>
  The claim as written sends every viewer who is not the author to the detail view. The
  anonymous viewer is not the author of P1, and both requests answer with the redirect to
  the login page that \<open>LoginRequiredMixin\<close> issues.
\<close>

theorem Post_edit_delete_by_other_viewer_counterexample:
  "P1 \<in> set (posts blog_db) \<and> ne_user (author_id P1) AnonymousUser \<and>
   PostUpdateView example_PostForm_clean (anonymous_post [(''title'', ''Mine''), (''text'', ''now'')])
     blog_db (post_pk P1) = Inr (blog_db, RedirectLogin) \<and>
   PostDeleteView (anonymous_post []) blog_db (post_pk P1) = Inr (blog_db, RedirectLogin) \<and>
   RedirectLogin \<noteq> RedirectPostDetail (post_pk P1)"
  by (simp add: PostUpdateView_def PostDeleteView_def LoginRequiredMixin_dispatch_def
      anonymous_post_def example_defs)

text \<open>
  Claim C9: whatever a request to \<open>PostUpdateView\<close> answers, the posts table has the same
  keys and the same authors afterwards, row by row: the form does not bind \<open>author\<close>, and
  \<open>form_valid\<close> assigns the requester, whom \<open>DispatchMixin\<close> has found to be the author.
  So the edited post keeps its author.
\<close>

theorem PostUpdateView_keeps_author:
  assumes "PostUpdateView clean request db pk = Inr (db', resp)"
  shows "map (\<lambda>p. (post_pk p, author_id p)) (posts db') =
         map (\<lambda>p. (post_pk p, author_id p)) (posts db)"
proof (cases "db' = db")
  case True
  then show ?thesis by simp
next
  case False
  with assms obtain obj u cd where
    obj: "Post_get_object db pk = Inr obj"
    and u: "req_user request = Authenticated u"
    and gate: "\<not> ne_user (author_id obj) (req_user request)"
    and db': "db' = Post_update ((PostForm_construct_instance cd obj)\<lparr>author_id := user_pk u\<rparr>) db"
    by (auto simp: PostUpdateView_def LoginRequiredMixin_dispatch_def DispatchMixin_dispatch_def
        PostUpdateView_form_valid_def
        split: if_splits sum.splits http_method.splits option.splits viewer.splits)
  from obj have only: "filter (\<lambda>p. post_pk p = pk) (posts db) = [obj]"
    by (simp add: Post_get_object_def get_object_or_404_Inr)
  then have "obj \<in> set (filter (\<lambda>p. post_pk p = pk) (posts db))" by simp
  then have pk: "post_pk obj = pk" by simp
  have same: "r = obj" if "r \<in> set (posts db)" and "post_pk r = pk" for r
  proof -
    from that have "r \<in> set (filter (\<lambda>p. post_pk p = pk) (posts db))" by simp
    with only show ?thesis by simp
  qed
  from gate u have au: "author_id obj = user_pk u" by simp
  define new where "new = (PostForm_construct_instance cd obj)\<lparr>author_id := user_pk u\<rparr>"
  have new: "post_pk new = pk" "author_id new = author_id obj"
    using pk au by (simp_all add: new_def PostForm_construct_instance_def)
  have "(post_pk (if post_pk r = post_pk new then new else r),
         author_id (if post_pk r = post_pk new then new else r)) = (post_pk r, author_id r)"
    if "r \<in> set (posts db)" for r
    using same [OF that] new by auto
  then show ?thesis
    unfolding db' Post_update_def new_def [symmetric]
    by simp
qed

theorem PostUpdateView_keeps_author_witness:
  "PostUpdateView example_PostForm_clean
     (post_by alice [(''title'', ''Renamed''), (''text'', ''first''), (''author'', ''2'')])
     blog_db 1 =
   Inr (blog_db\<lparr>posts :=
          [\<lparr>post_pk = 1, title = ''Renamed'', post_text = ''first'', pub_date = 60,
            author_id = 1, category_id = Some 1, location_id = None, is_published = False,
            created_at = 5\<rparr>, P2, P3, P4, P5, P6]\<rparr>,
        RedirectPostAbsoluteUrl 1) \<and>
   map (\<lambda>p. (post_pk p, author_id p))
     [\<lparr>post_pk = 1, title = ''Renamed'', post_text = ''first'', pub_date = 60,
       author_id = 1, category_id = Some 1, location_id = None, is_published = False,
       created_at = 5\<rparr>, P2, P3, P4, P5, P6] =
   map (\<lambda>p. (post_pk p, author_id p)) (posts blog_db)"
proof -
  have v: "PostUpdateView example_PostForm_clean
     (post_by alice [(''title'', ''Renamed''), (''text'', ''first''), (''author'', ''2'')])
     blog_db 1 =
   Inr (blog_db\<lparr>posts :=
          [\<lparr>post_pk = 1, title = ''Renamed'', post_text = ''first'', pub_date = 60,
            author_id = 1, category_id = Some 1, location_id = None, is_published = False,
            created_at = 5\<rparr>, P2, P3, P4, P5, P6]\<rparr>,
        RedirectPostAbsoluteUrl 1)"
    by (simp add: view_defs get_object_or_404_def example_defs restrict_map_def)
  show ?thesis
    using PostUpdateView_keeps_author [OF v] v by simp
qed

section \<open>Creating a post\<close>

text \<open>
  Claim C5: for a logged-in requester \<open>u\<close>, any validator and any form input, a create
  request either leaves the database unchanged or appends one post whose author is \<open>u\<close>;
  a POST with valid input does append such a post; and a request that differs only in the
  value submitted under \<open>author\<close> has the same result.
\<close>

theorem PostCreateView_author_is_requester:
  assumes "req_user request = Authenticated u"
  shows "(\<exists>db' resp. PostCreateView clean now request db = Inr (db', resp) \<and>
            (db' = db \<or>
             (\<exists>p. db' = db\<lparr>posts := posts db @ [p]\<rparr> \<and> author_id p = user_pk u))) \<and>
         (req_method request = POST \<and>
          clean db (bound_data PostForm_fields (req_POST request)) \<noteq> None \<longrightarrow>
            (\<exists>p. PostCreateView clean now request db =
                    Inr (db\<lparr>posts := posts db @ [p]\<rparr>, RedirectProfile (username u)) \<and>
                  author_id p = user_pk u)) \<and>
         PostCreateView clean now (request\<lparr>req_POST := (req_POST request)(''author'' := a)\<rparr>) db =
           PostCreateView clean now request db"
proof (intro conjI impI)
  show "\<exists>db' resp. PostCreateView clean now request db = Inr (db', resp) \<and>
          (db' = db \<or> (\<exists>p. db' = db\<lparr>posts := posts db @ [p]\<rparr> \<and> author_id p = user_pk u))"
    using assms
    by (cases "req_method request")
      (auto simp: PostCreateView_def LoginRequiredMixin_dispatch_def
        PostCreateView_form_valid_def Post_insert_def Let_def split: option.splits)
next
  assume "req_method request = POST \<and>
          clean db (bound_data PostForm_fields (req_POST request)) \<noteq> None"
  then show "\<exists>p. PostCreateView clean now request db =
                 Inr (db\<lparr>posts := posts db @ [p]\<rparr>, RedirectProfile (username u)) \<and>
               author_id p = user_pk u"
    using assms
    by (auto simp: PostCreateView_def LoginRequiredMixin_dispatch_def
        PostCreateView_form_valid_def Post_insert_def Let_def)
next
  show "PostCreateView clean now (request\<lparr>req_POST := (req_POST request)(''author'' := a)\<rparr>) db =
        PostCreateView clean now request db"
    by (simp add: PostCreateView_def LoginRequiredMixin_dispatch_def
        PostCreateView_form_valid_def bound_data_ignores_author
        split: http_method.splits option.splits)
qed

theorem PostCreateView_author_is_requester_witness:
  "PostCreateView example_PostForm_clean 100
     (post_by alice [(''title'', ''New''), (''text'', ''body''), (''author'', ''2'')]) blog_db =
   Inr (blog_db\<lparr>posts := posts blog_db @
          [\<lparr>post_pk = 7, title = ''New'', post_text = ''body'', pub_date = 60, author_id = 1,
            category_id = Some 1, location_id = None, is_published = False,
            created_at = 100\<rparr>]\<rparr>,
        RedirectProfile ''alice'') \<and>
   PostCreateView example_PostForm_clean 100
     (post_by alice [(''title'', ''New''), (''text'', ''body'')]) blog_db =
   PostCreateView example_PostForm_clean 100
     (post_by alice [(''title'', ''New''), (''text'', ''body''), (''author'', ''2'')]) blog_db"
proof -
  have u: "req_user (post_by alice [(''title'', ''New''), (''text'', ''body''), (''author'', ''2'')]) =
           Authenticated alice"
    by (simp add: post_by_def)
  have v: "PostCreateView example_PostForm_clean 100
     (post_by alice [(''title'', ''New''), (''text'', ''body''), (''author'', ''2'')]) blog_db =
   Inr (blog_db\<lparr>posts := posts blog_db @
          [\<lparr>post_pk = 7, title = ''New'', post_text = ''body'', pub_date = 60, author_id = 1,
            category_id = Some 1, location_id = None, is_published = False,
            created_at = 100\<rparr>]\<rparr>,
        RedirectProfile ''alice'')"
    by (simp add: view_defs example_defs restrict_map_def Let_def)
  have w: "(post_by alice [(''title'', ''New''), (''text'', ''body''), (''author'', ''2'')])
             \<lparr>req_POST := (req_POST (post_by alice
                 [(''title'', ''New''), (''text'', ''body''), (''author'', ''2'')]))
                 (''author'' := None)\<rparr> =
           post_by alice [(''title'', ''New''), (''text'', ''body'')]"
    by (simp add: post_by_def fun_eq_iff)
  show ?thesis
    using PostCreateView_author_is_requester [OF u, of example_PostForm_clean 100 blog_db None] v w
    by simp
qed

section \<open>Editing and deleting a comment\<close>

text \<open>
  What the comment views do: the object is looked up by both keys; a comment of another
  post is \<open>Http404\<close>, as is every failure of the lookup; the author's POST saves the
  new text or deletes the comment and redirects to the post of the path; any other viewer
  is redirected, with the database unchanged, to \<open>blog:post_detail\<close> with the key of the
  comment.
\<close>

lemma Comment_edit_delete_not_found:
  assumes "CommentMixin_get_object db ppk cpk = Inl e"
  shows "CommentUpdateView clean request db ppk cpk = Inl e"
    and "CommentDeleteView request db ppk cpk = Inl e"
  using assms
  by (simp_all add: CommentUpdateView_def CommentDeleteView_def DispatchMixin_dispatch_def)

lemma CommentMixin_get_object_other_post:
  assumes "distinct (map comment_pk (comments db))" and "c \<in> set (comments db)"
    and "comment_post_id c \<noteq> ppk"
  shows "CommentMixin_get_object db ppk (comment_pk c) = Inl Http404"
  using filter_unique_key [OF assms(1,2), of "\<lambda>k. comment_post_id k = ppk"] assms(3)
  by (simp add: CommentMixin_get_object_def get_object_or_404_def)

lemma Comment_edit_delete_by_other_viewer:
  assumes "CommentMixin_get_object db ppk cpk = Inr c"
    and "ne_user (comment_author_id c) (req_user request)"
  shows "CommentUpdateView clean request db ppk cpk = Inr (db, RedirectPostDetail (comment_pk c))"
    and "CommentDeleteView request db ppk cpk = Inr (db, RedirectPostDetail (comment_pk c))"
  using assms
  by (simp_all add: CommentUpdateView_def CommentDeleteView_def DispatchMixin_dispatch_def)

lemma Comment_edit_delete_by_author:
  assumes "CommentMixin_get_object db ppk cpk = Inr c"
    and "req_user request = Authenticated u" and "comment_author_id c = user_pk u"
    and "req_method request = POST"
  shows "clean db (bound_data CommentForm_fields (req_POST request)) = Some cd \<Longrightarrow>
         CommentUpdateView clean request db ppk cpk =
           Inr (Comment_update (c\<lparr>comment_text := cd\<rparr>) db, RedirectPostDetail ppk)"
    and "CommentDeleteView request db ppk cpk = Inr (Comment_delete c db, RedirectPostDetail ppk)"
  using assms
  by (simp_all add: CommentUpdateView_def CommentDeleteView_def DispatchMixin_dispatch_def
      LoginRequiredMixin_dispatch_def CommentForm_construct_instance_def)

text \<open>
  Claim C8 says that a requester who is not the comment's author is redirected to the
  detail view of the comment's post. \<open>DispatchMixin.dispatch\<close> builds the redirect from
  \<open>self.get_object().pk\<close>, which in the comment views is the key of the comment: in the
  well-formed database \<open>blog_db\<close> the comment K2 (key 2) belongs to post 1 and to alice, and
  bob's edit and delete requests are redirected to the detail view of post 2.
\<close>

theorem Comment_edit_by_other_user_redirect:
  "wf_db blog_db \<and> CommentMixin_get_object blog_db 1 2 = Inr K2 \<and> comment_post_id K2 = 1 \<and>
   ne_user (comment_author_id K2) (Authenticated bob) \<and>
   CommentUpdateView example_CommentForm_clean (post_by bob [(''text'', ''spam'')]) blog_db 1 2 =
     Inr (blog_db, RedirectPostDetail 2) \<and>
   CommentDeleteView (post_by bob []) blog_db 1 2 = Inr (blog_db, RedirectPostDetail 2)"
  by (simp add: blog_db_wf) (simp add: view_defs get_object_or_404_def example_defs)

text \<open>
  Claim C10: whatever a request to \<open>CommentUpdateView\<close> answers, every comment has the
  same key, author, post and \<open>created_at\<close> afterwards, the comments with another key are
  unchanged, and so are the other tables: the form binds the field \<open>text\<close> and nothing else.
\<close>

theorem CommentUpdateView_changes_text_only:
  assumes "CommentUpdateView clean request db ppk cpk = Inr (db', resp)"
    and "distinct (map comment_pk (comments db))"
  shows "map (\<lambda>c. (comment_pk c, comment_author_id c, comment_post_id c, comment_created_at c))
           (comments db') =
         map (\<lambda>c. (comment_pk c, comment_author_id c, comment_post_id c, comment_created_at c))
           (comments db) \<and>
         filter (\<lambda>c. comment_pk c \<noteq> cpk) (comments db') =
         filter (\<lambda>c. comment_pk c \<noteq> cpk) (comments db) \<and>
         users db' = users db \<and> categories db' = categories db \<and>
         locations db' = locations db \<and> posts db' = posts db"
proof (cases "db' = db")
  case True
  then show ?thesis by simp
next
  case False
  with assms(1) obtain obj cd where
    obj: "CommentMixin_get_object db ppk cpk = Inr obj"
    and db': "db' = Comment_update (CommentForm_construct_instance cd obj) db"
    by (auto simp: CommentUpdateView_def LoginRequiredMixin_dispatch_def
        DispatchMixin_dispatch_def
        split: if_splits sum.splits http_method.splits option.splits)
  define new where "new = CommentForm_construct_instance cd obj"
  from obj have "obj \<in> set (filter (\<lambda>c. comment_pk c = cpk \<and> comment_post_id c = ppk)
                               (comments db))"
    by (simp add: CommentMixin_get_object_def get_object_or_404_Inr)
  then have mem: "obj \<in> set (comments db)" and pk: "comment_pk obj = cpk" by simp_all
  have same: "r = obj" if "r \<in> set (comments db)" and "comment_pk r = cpk" for r
    using that mem pk assms(2) by (auto simp: distinct_map dest: inj_onD)
  have new: "comment_pk new = cpk" "comment_author_id new = comment_author_id obj"
    "comment_post_id new = comment_post_id obj"
    "comment_created_at new = comment_created_at obj"
    using pk by (simp_all add: new_def CommentForm_construct_instance_def)
  have cols: "(\<lambda>c. (comment_pk c, comment_author_id c, comment_post_id c, comment_created_at c))
                (if comment_pk r = comment_pk new then new else r) =
              (comment_pk r, comment_author_id r, comment_post_id r, comment_created_at r)"
    if "r \<in> set (comments db)" for r
    using same [OF that] new by auto
  have others: "filter (\<lambda>c. comment_pk c \<noteq> cpk)
                  (map (\<lambda>r. if comment_pk r = comment_pk new then new else r) xs) =
                filter (\<lambda>c. comment_pk c \<noteq> cpk) xs" for xs
    using new(1) by (induction xs) auto
  show ?thesis
    unfolding db' Comment_update_def new_def [symmetric]
    using cols others by simp
qed

theorem CommentUpdateView_changes_text_only_witness:
  "CommentUpdateView example_CommentForm_clean
     (post_by alice [(''text'', ''edited''), (''author'', ''2''), (''post'', ''6'')]) blog_db 1 2 =
   Inr (blog_db\<lparr>comments := [K1, K2\<lparr>comment_text := ''edited''\<rparr>, K3]\<rparr>,
        RedirectPostDetail 1) \<and>
   map (\<lambda>c. (comment_pk c, comment_author_id c, comment_post_id c, comment_created_at c))
     [K1, K2\<lparr>comment_text := ''edited''\<rparr>, K3] =
   map (\<lambda>c. (comment_pk c, comment_author_id c, comment_post_id c, comment_created_at c))
     (comments blog_db)"
proof -
  have v: "CommentUpdateView example_CommentForm_clean
     (post_by alice [(''text'', ''edited''), (''author'', ''2''), (''post'', ''6'')]) blog_db 1 2 =
   Inr (blog_db\<lparr>comments := [K1, K2\<lparr>comment_text := ''edited''\<rparr>, K3]\<rparr>,
        RedirectPostDetail 1)"
    by (simp add: view_defs get_object_or_404_def example_defs restrict_map_def)
  have d: "distinct (map comment_pk (comments blog_db))"
    by (simp add: example_defs)
  show ?thesis
    using CommentUpdateView_changes_text_only [OF v d] v by simp
qed

section \<open>Editing a profile\<close>

text \<open>
  Claim C4 says that no request by one user can update the identity fields of another.
  \<open>ProfileUpdateView\<close> takes the user to edit from the username of the path and never
  compares it with the requester: in the well-formed database \<open>blog_db\<close>, bob's POST to
  the profile of alice rewrites the row of alice.
\<close>

theorem ProfileUpdateView_edits_other_user:
  "wf_db blog_db \<and> bob \<noteq> alice \<and>
   ProfileUpdateView example_ProfileForm_clean
     (post_by bob [(''username'', ''mallory''), (''email'', ''m@example.org'')]) blog_db ''alice'' =
   Inr (blog_db\<lparr>users :=
          [\<lparr>user_pk = 1, username = ''mallory'', first_name = [], last_name = [],
            email = ''m@example.org''\<rparr>, bob, nobody]\<rparr>,
        RedirectProfile ''mallory'')"
  by (simp add: blog_db_wf)
    (simp add: view_defs get_object_or_404_def example_defs restrict_map_def)

end
